theory Spec2Isabelle
  imports Main "HOL-Library.Sublist" "HOL-Library.Word"
begin

section \<open>Paths: the path/filepath operations used by the sandbox (Unix target)\<close>

text \<open>
  Go strings are byte sequences, so a path is a \<open>string\<close>.  The functions below follow
  the documented behaviour of path/filepath on a target whose separator is \<open>/\<close> and that
  has no volume names: \<open>IsAbs\<close> tests for a leading separator, \<open>Clean\<close> applies the four
  rewriting rules of the library (collapse separators, drop \<open>.\<close>, cancel an inner \<open>..\<close>
  against the element before it, drop a \<open>..\<close> that follows the root), \<open>Join\<close> skips leading
  empty elements, joins the rest with separators and cleans, and \<open>Abs\<close> cleans an absolute
  path and joins any other path under the working directory.
\<close>

definition IsAbs :: "string \<Rightarrow> bool" where
  "IsAbs path = prefix ''/'' path"

text \<open>The non-empty elements of a path, in order; \<open>cur\<close> is the element being read.\<close>

fun elements :: "string \<Rightarrow> string \<Rightarrow> string list" where
  "elements cur [] = (if cur = [] then [] else [cur])"
| "elements cur (c # cs) =
     (if c = CHR ''/'' then (if cur = [] then elements [] cs else cur # elements [] cs)
      else elements (cur @ [c]) cs)"

text \<open>
  The element loop of \<open>Clean\<close>.  \<open>out\<close> is the output so far, last element first.  A \<open>..\<close>
  removes the last output element when that is a real element; when it cannot backtrack
  it is kept in a relative path and dropped in a rooted one.
\<close>

fun resolve :: "bool \<Rightarrow> string list \<Rightarrow> string list \<Rightarrow> string list" where
  "resolve rooted out [] = rev out"
| "resolve rooted out (e # es) =
     (if e = ''.'' then resolve rooted out es
      else if e = ''..'' then
        (if out \<noteq> [] \<and> hd out \<noteq> ''..'' then resolve rooted (tl out) es
         else if \<not> rooted then resolve rooted (''..'' # out) es
         else resolve rooted out es)
      else resolve rooted (e # out) es)"

fun join_sep :: "string list \<Rightarrow> string" where
  "join_sep [] = []"
| "join_sep [e] = e"
| "join_sep (e # es) = e @ ''/'' @ join_sep es"

definition Clean :: "string \<Rightarrow> string" where
  "Clean path =
     (if path = [] then ''.''
      else
        let rooted = IsAbs path;
            out = resolve rooted [] (elements [] path)
        in if rooted then ''/'' @ join_sep out
           else if out = [] then ''.''
           else join_sep out)"

fun Join :: "string list \<Rightarrow> string" where
  "Join [] = []"
| "Join (e # es) = (if e = [] then Join es else Clean (join_sep (e # es)))"

text \<open>
  \<open>Abs\<close> asks the operating system for the working directory only when the path is not
  absolute; \<open>wd\<close> is the answer of \<open>os.Getwd\<close>, an error message or a directory.
\<close>

definition Abs :: "string + string \<Rightarrow> string \<Rightarrow> string + string" where
  "Abs wd path =
     (if IsAbs path then Inr (Clean path)
      else case wd of Inl err \<Rightarrow> Inl err | Inr dir \<Rightarrow> Inr (Join [dir, path]))"

section \<open>The sandboxed file API\<close>

subsection \<open>Allowed download directories\<close>

text \<open>
  The process-wide list \<open>allowedDownloadDirs\<close> is passed explicitly.  The reader/writer
  lock around it serialises the accesses and has no other effect on the values.
  \<open>SetAllowedDownloadDirs\<close> stores the host's list as it is; \<open>AddAllowedDownloadDir\<close>
  appends the absolute form of the directory, or nothing when that cannot be computed.
\<close>

definition SetAllowedDownloadDirs :: "string list \<Rightarrow> string list \<Rightarrow> string list" where
  "SetAllowedDownloadDirs dirs allowedDownloadDirs = dirs"

definition AddAllowedDownloadDir ::
  "string + string \<Rightarrow> string \<Rightarrow> string list \<Rightarrow> string list" where
  "AddAllowedDownloadDir wd dir allowedDownloadDirs =
     (case Abs wd dir of
        Inr absDir \<Rightarrow> allowedDownloadDirs @ [absDir]
      | Inl err \<Rightarrow> allowedDownloadDirs)"

fun isPathInAllowedDirs :: "string list \<Rightarrow> string \<Rightarrow> bool" where
  "isPathInAllowedDirs [] absPath = False"
| "isPathInAllowedDirs (allowedDir # rest) absPath =
     (if prefix allowedDir absPath then True else isPathInAllowedDirs rest absPath)"

subsection \<open>Path validation\<close>

text \<open>
  The errors of \<open>validatePath\<close> are values built by \<open>fmt.Errorf\<close>; each constructor stands
  for one of its four messages and \<open>Error\<close> renders the message (\<open>CHR 0x27\<close> is the
  single quote).
\<close>

datatype error =
    NoFilePermission
  | InvalidPath string
  | AbsolutePathNotAllowed
  | OutsideSandbox string

fun Error :: "error \<Rightarrow> string" where
  "Error NoFilePermission =
     ''file access denied: extension does not have '' @ [CHR 0x27] @ ''file'' @ [CHR 0x27]
       @ '' permission''"
| "Error (InvalidPath err) = ''invalid path: '' @ err"
| "Error AbsolutePathNotAllowed =
     ''file access denied: absolute paths are not allowed. Use relative paths within extension sandbox''"
| "Error (OutsideSandbox path) =
     ''file access denied: path '' @ [CHR 0x27] @ path @ [CHR 0x27] @ '' is outside sandbox''"

text \<open>
  Of the runtime instance, \<open>validatePath\<close> reads the manifest's file permission and the
  private data directory.
\<close>

record ExtensionRuntime =
  manifest_Permissions_File :: bool
  dataDir :: string

definition validatePath ::
  "ExtensionRuntime \<Rightarrow> string list \<Rightarrow> string + string \<Rightarrow> string \<Rightarrow> error + string" where
  "validatePath r allowedDownloadDirs wd path =
     (if \<not> manifest_Permissions_File r then Inl NoFilePermission
      else
        let cleanPath = Clean path in
        if IsAbs cleanPath then
          (case Abs wd cleanPath of
             Inl err \<Rightarrow> Inl (InvalidPath err)
           | Inr absPath \<Rightarrow>
               if isPathInAllowedDirs allowedDownloadDirs absPath then Inr absPath
               else Inl AbsolutePathNotAllowed)
        else
          let fullPath = Join [dataDir r, cleanPath] in
          (case Abs wd fullPath of
             Inl err \<Rightarrow> Inl (InvalidPath err)
           | Inr absPath \<Rightarrow>
               let absDataDir = (case Abs wd (dataDir r) of Inl err \<Rightarrow> [] | Inr d \<Rightarrow> d) in
               if \<not> prefix absDataDir absPath then Inl (OutsideSandbox path)
               else Inr absPath))"

text \<open>
  A location is inside a directory when its elements continue the directory's elements.
  This is the containment that a sandbox is about; it is not how \<open>validatePath\<close> tests.
\<close>

definition inside_dir :: "string \<Rightarrow> string \<Rightarrow> bool" where
  "inside_dir dir path = prefix (elements [] dir) (elements [] path)"

subsection \<open>Script-facing operations\<close>

text \<open>
  The values handed back to a script: booleans, strings, numbers and objects with named
  fields.  The file system answers \<open>os.Stat\<close>: \<open>None\<close> is an error, otherwise the file's
  information.  The arguments of a call are given by their string conversions.
\<close>

datatype goja_Value =
    Bool bool
  | String string
  | Number int
  | Object "(string \<times> goja_Value) list"

record FileInfo =
  IsDir :: bool
  Size :: int

type_synonym filesystem = "string \<Rightarrow> FileInfo option"

definition fileExists ::
  "ExtensionRuntime \<Rightarrow> string list \<Rightarrow> string + string \<Rightarrow> filesystem \<Rightarrow> string list
     \<Rightarrow> goja_Value" where
  "fileExists r allowedDownloadDirs wd stat arguments =
     (case arguments of
        [] \<Rightarrow> Bool False
      | path # _ \<Rightarrow>
          (case validatePath r allowedDownloadDirs wd path of
             Inl err \<Rightarrow> Bool False
           | Inr fullPath \<Rightarrow> Bool (stat fullPath \<noteq> None)))"

text \<open>
  A sibling operation, for comparison: \<open>fileGetSize\<close> answers with an object that carries
  \<open>success\<close> and, on failure, the error's message.  \<open>stat_error\<close> is the message of the
  failed \<open>os.Stat\<close>.
\<close>

definition fileGetSize ::
  "ExtensionRuntime \<Rightarrow> string list \<Rightarrow> string + string \<Rightarrow> filesystem \<Rightarrow> (string \<Rightarrow> string)
     \<Rightarrow> string list \<Rightarrow> goja_Value" where
  "fileGetSize r allowedDownloadDirs wd stat stat_error arguments =
     (case arguments of
        [] \<Rightarrow> Object [(''success'', Bool False), (''error'', String ''path is required'')]
      | path # _ \<Rightarrow>
          (case validatePath r allowedDownloadDirs wd path of
             Inl err \<Rightarrow> Object [(''success'', Bool False), (''error'', String (Error err))]
           | Inr fullPath \<Rightarrow>
               (case stat fullPath of
                  None \<Rightarrow>
                    Object [(''success'', Bool False), (''error'', String (stat_error fullPath))]
                | Some info \<Rightarrow>
                    Object [(''success'', Bool True), (''size'', Number (Size info))])))"

section \<open>Time\<close>

text \<open>
  An instant is a count of nanoseconds from the zero instant of \<open>time.Time\<close>, a duration a
  count of nanoseconds.  \<open>Sub\<close> saturates at the ends of the 64-bit duration range, as the
  library does.  Every reading of the clock is an argument of the function that reads it.
\<close>

type_synonym Time = int
type_synonym Duration = int

definition Minute :: Duration where
  "Minute = 60 * 1000000000"

definition maxDuration :: Duration where
  "maxDuration = 2 ^ 63 - 1"

definition minDuration :: Duration where
  "minDuration = - (2 ^ 63)"

definition After :: "Time \<Rightarrow> Time \<Rightarrow> bool" where
  "After t u = (u < t)"

definition Add :: "Time \<Rightarrow> Duration \<Rightarrow> Time" where
  "Add t d = t + d"

definition Sub :: "Time \<Rightarrow> Time \<Rightarrow> Duration" where
  "Sub t u =
     (let d = t - u
      in if maxDuration < d then maxDuration else if d < minDuration then minDuration else d)"

definition IsZero :: "Time \<Rightarrow> bool" where
  "IsZero t = (t = 0)"

section \<open>Letter case\<close>

text \<open>
  \<open>strings.ToUpper\<close> and \<open>strings.ToLower\<close>.  A string of ASCII bytes is mapped byte by
  byte: a byte between \<open>a\<close> and \<open>z\<close> loses 32, a byte between \<open>A\<close> and \<open>Z\<close> gains 32.  Any
  other string goes through \<open>strings.Map\<close>: it is read as UTF-8 rune by rune, a byte that
  starts no valid encoding being read as the replacement rune of width one; each rune is
  mapped by \<open>unicode.ToUpper\<close> (\<open>unicode.ToLower\<close>) and written back as UTF-8.  The rune
  mappings treat ASCII themselves and consult the Unicode case tables above it; the
  tables are a parameter, \<open>To_UpperCase\<close> and \<open>To_LowerCase\<close>.
\<close>

type_synonym rune = nat

record CaseTables =
  To_UpperCase :: "rune \<Rightarrow> rune"
  To_LowerCase :: "rune \<Rightarrow> rune"

definition RuneError :: rune where
  "RuneError = 0xFFFD"

definition continuation :: "nat \<Rightarrow> bool" where
  "continuation b = (0x80 \<le> b \<and> b \<le> 0xBF)"

text \<open>
  \<open>DecodeRune\<close> reads the first rune of a byte sequence and tells its width: the
  shortest-form encodings of one to four bytes, with the second byte's range narrowed
  after \<open>E0\<close>, \<open>ED\<close>, \<open>F0\<close> and \<open>F4\<close>; anything else is the replacement rune, one byte
  wide.  \<open>runes\<close> is the loop over a string.
\<close>

definition DecodeRune :: "nat list \<Rightarrow> rune \<times> nat" where
  "DecodeRune p =
     (case p of
        [] \<Rightarrow> (RuneError, 0)
      | b0 # bs \<Rightarrow>
          if b0 < 0x80 then (b0, 1)
          else if 0xC2 \<le> b0 \<and> b0 \<le> 0xDF then
            (case bs of
               b1 # _ \<Rightarrow>
                 if continuation b1 then (b0 mod 32 * 64 + b1 mod 64, 2)
                 else (RuneError, 1)
             | _ \<Rightarrow> (RuneError, 1))
          else if 0xE0 \<le> b0 \<and> b0 \<le> 0xEF then
            (case bs of
               b1 # b2 # _ \<Rightarrow>
                 if (if b0 = 0xE0 then 0xA0 else 0x80) \<le> b1
                    \<and> b1 \<le> (if b0 = 0xED then 0x9F else 0xBF) \<and> continuation b2
                 then (b0 mod 16 * 4096 + b1 mod 64 * 64 + b2 mod 64, 3)
                 else (RuneError, 1)
             | _ \<Rightarrow> (RuneError, 1))
          else if 0xF0 \<le> b0 \<and> b0 \<le> 0xF4 then
            (case bs of
               b1 # b2 # b3 # _ \<Rightarrow>
                 if (if b0 = 0xF0 then 0x90 else 0x80) \<le> b1
                    \<and> b1 \<le> (if b0 = 0xF4 then 0x8F else 0xBF)
                    \<and> continuation b2 \<and> continuation b3
                 then (b0 mod 8 * 262144 + b1 mod 64 * 4096 + b2 mod 64 * 64 + b3 mod 64, 4)
                 else (RuneError, 1)
             | _ \<Rightarrow> (RuneError, 1))
          else (RuneError, 1))"

fun runes :: "nat list \<Rightarrow> rune list" where
  "runes [] = []"
| "runes (b0 # bs) =
     (case DecodeRune (b0 # bs) of (r, width) \<Rightarrow> r # runes (drop (width - 1) bs))"

text \<open>
  \<open>EncodeRune\<close> writes a rune as UTF-8; a surrogate or a value beyond the last code
  point is written as the replacement rune.
\<close>

definition EncodeRune :: "rune \<Rightarrow> nat list" where
  "EncodeRune r =
     (if r \<le> 0x7F then [r]
      else if r \<le> 0x7FF then [0xC0 + r div 64, 0x80 + r mod 64]
      else if 0x10FFFF < r \<or> (0xD800 \<le> r \<and> r \<le> 0xDFFF) then [0xEF, 0xBF, 0xBD]
      else if r \<le> 0xFFFF then [0xE0 + r div 4096, 0x80 + r div 64 mod 64, 0x80 + r mod 64]
      else [0xF0 + r div 262144, 0x80 + r div 4096 mod 64, 0x80 + r div 64 mod 64,
            0x80 + r mod 64])"

definition strings_Map :: "(rune \<Rightarrow> rune) \<Rightarrow> string \<Rightarrow> string" where
  "strings_Map mapping s =
     map char_of (concat (map (\<lambda>c. EncodeRune (mapping c)) (runes (map of_char s))))"

definition unicode_ToUpper :: "CaseTables \<Rightarrow> rune \<Rightarrow> rune" where
  "unicode_ToUpper u r =
     (if r \<le> 0x7F then (if 97 \<le> r \<and> r \<le> 122 then r - 32 else r)
      else To_UpperCase u r)"

definition unicode_ToLower :: "CaseTables \<Rightarrow> rune \<Rightarrow> rune" where
  "unicode_ToLower u r =
     (if r \<le> 0x7F then (if 65 \<le> r \<and> r \<le> 90 then r + 32 else r)
      else To_LowerCase u r)"

definition upper_byte :: "char \<Rightarrow> char" where
  "upper_byte c =
     (let n = (of_char c :: nat) in if 97 \<le> n \<and> n \<le> 122 then char_of (n - 32) else c)"

definition lower_byte :: "char \<Rightarrow> char" where
  "lower_byte c =
     (let n = (of_char c :: nat) in if 65 \<le> n \<and> n \<le> 90 then char_of (n + 32) else c)"

definition ToUpper :: "CaseTables \<Rightarrow> string \<Rightarrow> string" where
  "ToUpper u s =
     (let isASCII = list_all (\<lambda>c. (of_char c :: nat) < 0x80) s;
          hasLower = list_ex (\<lambda>c. 97 \<le> (of_char c :: nat) \<and> (of_char c :: nat) \<le> 122) s
      in if isASCII then (if \<not> hasLower then s else map upper_byte s)
         else strings_Map (unicode_ToUpper u) s)"

definition ToLower :: "CaseTables \<Rightarrow> string \<Rightarrow> string" where
  "ToLower u s =
     (let isASCII = list_all (\<lambda>c. (of_char c :: nat) < 0x80) s;
          hasUpper = list_ex (\<lambda>c. 65 \<le> (of_char c :: nat) \<and> (of_char c :: nat) \<le> 90) s
      in if isASCII then (if \<not> hasUpper then s else map lower_byte s)
         else strings_Map (unicode_ToLower u) s)"




text \<open>
  A case table for the examples: the letters of the Latin-1 supplement, which lie 32
  apart from their other case.
\<close>

definition latin1_tables :: CaseTables where
  "latin1_tables =
     \<lparr>To_UpperCase = (\<lambda>r. if 0xE0 \<le> r \<and> r \<le> 0xFE \<and> r \<noteq> 0xF7 then r - 32 else r),
      To_LowerCase = (\<lambda>r. if 0xC0 \<le> r \<and> r \<le> 0xDE \<and> r \<noteq> 0xD7 then r + 32 else r)\<rparr>"

section \<open>The track identifier cache\<close>

record TrackIDCacheEntry =
  TidalTrackID :: "64 word"
  QobuzTrackID :: "64 word"
  AmazonTrackID :: string
  ExpiresAt :: Time

record TrackIDCache =
  cache :: "string \<rightharpoonup> TrackIDCacheEntry"
  ttl :: Duration
  lastCleanup :: Time
  cleanupInterval :: Duration

text \<open>The zero value of an entry, and the cache as \<open>GetTrackIDCache\<close> creates it.\<close>

definition zero_entry :: TrackIDCacheEntry where
  "zero_entry = \<lparr>TidalTrackID = 0, QobuzTrackID = 0, AmazonTrackID = [], ExpiresAt = 0\<rparr>"

definition GetTrackIDCache :: TrackIDCache where
  "GetTrackIDCache =
     \<lparr>cache = Map.empty, ttl = 30 * Minute, lastCleanup = 0, cleanupInterval = 5 * Minute\<rparr>"

text \<open>
  \<open>Get\<close> reads the clock once under the read lock (\<open>now1\<close>) and once under the write lock
  (\<open>now2\<close>).  It returns the entry found, or nothing, and the cache it leaves behind.
\<close>

definition Get ::
  "TrackIDCache \<Rightarrow> string \<Rightarrow> Time \<Rightarrow> Time \<Rightarrow> TrackIDCacheEntry option \<times> TrackIDCache" where
  "Get c isrc now1 now2 =
     (case cache c isrc of
        None \<Rightarrow> (None, c)
      | Some entry \<Rightarrow>
          let expired = After now1 (ExpiresAt entry) in
          if \<not> expired then (Some entry, c)
          else
            (case cache c isrc of
               Some entry' \<Rightarrow>
                 if After now2 (ExpiresAt entry')
                 then (None, c\<lparr>cache := (cache c)(isrc := None)\<rparr>)
                 else (None, c)
             | None \<Rightarrow> (None, c)))"

definition pruneExpiredLocked :: "TrackIDCache \<Rightarrow> Time \<Rightarrow> TrackIDCache" where
  "pruneExpiredLocked c now =
     c\<lparr>cache := (\<lambda>key. case cache c key of
                        None \<Rightarrow> None
                      | Some entry \<Rightarrow> if After now (ExpiresAt entry) then None else Some entry)\<rparr>"

text \<open>
  Each writer looks the entry up or creates the zero entry, sets its own field, pushes the
  expiry to \<open>now + ttl\<close>, and sweeps the expired entries when a sweep is due.
\<close>

definition SetTidal :: "TrackIDCache \<Rightarrow> string \<Rightarrow> 64 word \<Rightarrow> Time \<Rightarrow> TrackIDCache" where
  "SetTidal c isrc trackID now =
     (let entry = (case cache c isrc of None \<Rightarrow> zero_entry | Some e \<Rightarrow> e);
          entry = entry\<lparr>TidalTrackID := trackID\<rparr>;
          entry = entry\<lparr>ExpiresAt := Add now (ttl c)\<rparr>;
          c = c\<lparr>cache := (cache c)(isrc \<mapsto> entry)\<rparr>
      in if 0 < cleanupInterval c
            \<and> (IsZero (lastCleanup c) \<or> cleanupInterval c \<le> Sub now (lastCleanup c))
         then (pruneExpiredLocked c now)\<lparr>lastCleanup := now\<rparr>
         else c)"

definition SetQobuz :: "TrackIDCache \<Rightarrow> string \<Rightarrow> 64 word \<Rightarrow> Time \<Rightarrow> TrackIDCache" where
  "SetQobuz c isrc trackID now =
     (let entry = (case cache c isrc of None \<Rightarrow> zero_entry | Some e \<Rightarrow> e);
          entry = entry\<lparr>QobuzTrackID := trackID\<rparr>;
          entry = entry\<lparr>ExpiresAt := Add now (ttl c)\<rparr>;
          c = c\<lparr>cache := (cache c)(isrc \<mapsto> entry)\<rparr>
      in if 0 < cleanupInterval c
            \<and> (IsZero (lastCleanup c) \<or> cleanupInterval c \<le> Sub now (lastCleanup c))
         then (pruneExpiredLocked c now)\<lparr>lastCleanup := now\<rparr>
         else c)"

definition SetAmazon :: "TrackIDCache \<Rightarrow> string \<Rightarrow> string \<Rightarrow> Time \<Rightarrow> TrackIDCache" where
  "SetAmazon c isrc trackID now =
     (let entry = (case cache c isrc of None \<Rightarrow> zero_entry | Some e \<Rightarrow> e);
          entry = entry\<lparr>AmazonTrackID := trackID\<rparr>;
          entry = entry\<lparr>ExpiresAt := Add now (ttl c)\<rparr>;
          c = c\<lparr>cache := (cache c)(isrc \<mapsto> entry)\<rparr>
      in if 0 < cleanupInterval c
            \<and> (IsZero (lastCleanup c) \<or> cleanupInterval c \<le> Sub now (lastCleanup c))
         then (pruneExpiredLocked c now)\<lparr>lastCleanup := now\<rparr>
         else c)"

section \<open>The content file index\<close>

record ISRCIndex =
  index :: "string \<rightharpoonup> string"
  outputDir :: string
  buildTime :: Time

definition isrcIndexTTL :: Duration where
  "isrcIndexTTL = 5 * Minute"

text \<open>
  What the index reads from the outside: the files \<open>filepath.Walk\<close> visits under a
  directory, each with its information or the error of reading it; \<open>os.Stat\<close>; and the tag
  reader \<open>ReadMetadata\<close>, of whose result only the recording identifier is used.
\<close>

record Metadata =
  Metadata_ISRC :: string

record disk =
  filepath_Walk :: "string \<Rightarrow> (string \<times> (string + FileInfo)) list"
  os_Stat :: filesystem
  ReadMetadata :: "string \<Rightarrow> string + Metadata"

text \<open>
  \<open>Ext\<close> is the suffix of the last path element from its last dot on, empty without a dot.
\<close>

definition Ext :: "string \<Rightarrow> string" where
  "Ext path =
     (let base = rev (takeWhile (\<lambda>c. c \<noteq> CHR ''/'') (rev path))
      in if CHR ''.'' \<in> set base
         then CHR ''.'' # rev (takeWhile (\<lambda>c. c \<noteq> CHR ''.'') (rev base))
         else [])"

text \<open>
  The function \<open>buildISRCIndex\<close> hands to the walk, as a step on the map being filled and
  the count of indexed files.
\<close>

definition walkFn ::
  "CaseTables \<Rightarrow> (string \<Rightarrow> string + Metadata) \<Rightarrow> (string \<rightharpoonup> string) \<times> nat \<Rightarrow> string \<times> (string + FileInfo)
     \<Rightarrow> (string \<rightharpoonup> string) \<times> nat" where
  "walkFn u readMetadata acc visited =
     (case visited of (path, info) \<Rightarrow>
        (case info of
           Inl err \<Rightarrow> acc
         | Inr fi \<Rightarrow>
             if IsDir fi then acc
             else
               let ext = ToLower u (Ext path) in
               if ext \<noteq> ''.flac'' then acc
               else
                 (case readMetadata path of
                    Inl err \<Rightarrow> acc
                  | Inr metadata \<Rightarrow>
                      if Metadata_ISRC metadata = [] then acc
                      else ((fst acc)(ToUpper u (Metadata_ISRC metadata) \<mapsto> path),
                            snd acc + 1))))"

text \<open>
  The process-wide cache of indexes maps a directory to its index object.  Callers hold
  the object by reference; in the model the object of directory \<open>d\<close> is the value stored
  under \<open>d\<close>, and a change made through the reference is a change of that value.
\<close>

type_synonym index_cache = "string \<rightharpoonup> ISRCIndex"

definition buildISRCIndex ::
  "CaseTables \<Rightarrow> index_cache \<Rightarrow> disk \<Rightarrow> Time \<Rightarrow> string \<Rightarrow> ISRCIndex \<times> index_cache" where
  "buildISRCIndex u isrcIndexCache d now dir =
     (let idx = \<lparr>index = Map.empty, outputDir = dir, buildTime = now\<rparr> in
      if dir = [] then (idx, isrcIndexCache)
      else
        let filled = foldl (walkFn u (ReadMetadata d)) (Map.empty, 0) (filepath_Walk d dir);
            idx = idx\<lparr>index := fst filled\<rparr>
        in (idx, isrcIndexCache(dir \<mapsto> idx)))"

text \<open>
  \<open>GetISRCIndex\<close> reads the clock on the fast path (\<open>now1\<close>), again after taking the
  directory's build lock (\<open>now2\<close>), and the build reads it a third time (\<open>now3\<close>).
\<close>

definition GetISRCIndex ::
  "CaseTables \<Rightarrow> index_cache \<Rightarrow> disk \<Rightarrow> Time \<Rightarrow> Time \<Rightarrow> Time \<Rightarrow> string \<Rightarrow> ISRCIndex \<times> index_cache" where
  "GetISRCIndex u isrcIndexCache d now1 now2 now3 dir =
     (let fresh = (\<lambda>now. case isrcIndexCache dir of
                            None \<Rightarrow> None
                          | Some idx \<Rightarrow>
                              if Sub now (buildTime idx) < isrcIndexTTL then Some idx else None)
      in case fresh now1 of
           Some idx \<Rightarrow> (idx, isrcIndexCache)
         | None \<Rightarrow>
             (case fresh now2 of
                Some idx \<Rightarrow> (idx, isrcIndexCache)
              | None \<Rightarrow> buildISRCIndex u isrcIndexCache d now3 dir))"

definition lookup :: "CaseTables \<Rightarrow> ISRCIndex \<Rightarrow> string \<Rightarrow> string \<times> bool" where
  "lookup u idx isrc =
     (if isrc = [] then ([], False)
      else case index idx (ToUpper u isrc) of
             None \<Rightarrow> ([], False)
           | Some path \<Rightarrow> (path, True))"

definition remove :: "CaseTables \<Rightarrow> ISRCIndex \<Rightarrow> string \<Rightarrow> ISRCIndex" where
  "remove u idx isrc =
     (if isrc = [] then idx
      else idx\<lparr>index := (index idx)(ToUpper u isrc := None)\<rparr>)"


definition CheckFileExists :: "filesystem \<Rightarrow> string \<Rightarrow> bool" where
  "CheckFileExists stat filePath =
     (case stat filePath of
        None \<Rightarrow> False
      | Some info \<Rightarrow> \<not> IsDir info \<and> 0 < Size info)"

definition checkISRCExistsInternal ::
  "CaseTables \<Rightarrow> index_cache \<Rightarrow> disk \<Rightarrow> Time \<Rightarrow> Time \<Rightarrow> Time \<Rightarrow> string \<Rightarrow> string
     \<Rightarrow> (string \<times> bool) \<times> index_cache" where
  "checkISRCExistsInternal u isrcIndexCache d now1 now2 now3 dir isrc =
     (if isrc = [] \<or> dir = [] then (([], False), isrcIndexCache)
      else
        (case GetISRCIndex u isrcIndexCache d now1 now2 now3 dir of (idx, isrcIndexCache) \<Rightarrow>
           (case lookup u idx isrc of (filePath, exists) \<Rightarrow>
              if \<not> exists then (([], False), isrcIndexCache)
              else if \<not> CheckFileExists (os_Stat d) filePath
              then (([], False), isrcIndexCache(dir \<mapsto> remove u idx isrc))
              else ((filePath, True), isrcIndexCache))))"

section \<open>The script execution controller\<close>

text \<open>
  An error value is a \<open>JSExecutionError\<close> or any other error, given by its message.
\<close>

record JSExecutionError =
  Message :: string
  IsTimeout :: bool

datatype go_error =
    JSExecutionError_of JSExecutionError
  | errorString string

definition IsTimeoutError :: "go_error option \<Rightarrow> bool" where
  "IsTimeoutError err =
     (case err of
        Some (JSExecutionError_of jsErr) \<Rightarrow> IsTimeout jsErr
      | _ \<Rightarrow> False)"

text \<open>
  What \<open>vm.RunString\<close> does with the script: it returns a value and possibly an error, or
  it panics with some value (shown by its text).
\<close>

datatype RunString_outcome =
    Returns "goja_Value option" "go_error option"
  | Panics string

text \<open>
  The task (run the script, recover a panic, send one result) and the caller run
  concurrently, and only the mutex around the \<open>interrupted\<close> flag relates them.  A
  schedule says, for one execution, how the task's steps fall among the caller's:
  whether the script's panic is raised after the caller has set the flag, whether the
  recovery handler reads the flag after the caller has set it, and where the caller gets
  the task's result: in its first select (before it has seen the deadline), in its second
  select (after the deadline, within the grace period of one second), or not before the
  grace period ends.
\<close>

datatype receipt =
    FirstSelect
  | SecondSelect
  | GraceExpired

record schedule =
  panic_after_flag :: bool
  read_after_flag :: bool
  received :: receipt

text \<open>
  The order of each side's own steps limits the schedules: the handler reads the flag
  after the panic is raised, and the caller sets the flag only after it has left the
  first select, so a result sent after a read of the set flag is not taken there.
\<close>

definition possible :: "schedule \<Rightarrow> bool" where
  "possible s =
     ((panic_after_flag s \<longrightarrow> read_after_flag s)
      \<and> (read_after_flag s \<longrightarrow> received s \<noteq> FirstSelect))"

definition timeout_exceeded :: go_error where
  "timeout_exceeded =
     JSExecutionError_of \<lparr>Message = ''execution timeout exceeded'', IsTimeout = True\<rparr>"

definition timeout_exceeded_force :: go_error where
  "timeout_exceeded_force =
     JSExecutionError_of \<lparr>Message = ''execution timeout exceeded (force)'', IsTimeout = True\<rparr>"

text \<open>The task; \<open>interrupted\<close> is the value of the flag that the handler reads.\<close>

definition run_task :: "RunString_outcome \<Rightarrow> bool \<Rightarrow> goja_Value option \<times> go_error option" where
  "run_task outcome interrupted =
     (case outcome of
        Panics r \<Rightarrow>
          let wasInterrupted = interrupted in
          if wasInterrupted then (None, Some timeout_exceeded)
          else (None, Some (errorString (''panic during execution: '' @ r)))
      | Returns val err \<Rightarrow> (val, err))"

text \<open>
  The caller: the first select returns the task's result as it is; after the deadline
  the caller sets the flag, interrupts the engine and waits for the result, of which it
  returns the error, or a timeout when there is none; when the grace period ends first
  it returns the forced timeout.
\<close>

definition RunWithTimeout ::
  "RunString_outcome \<Rightarrow> schedule \<Rightarrow> goja_Value option \<times> go_error option" where
  "RunWithTimeout outcome s =
     (let res = run_task outcome (read_after_flag s)
      in case received s of
           FirstSelect \<Rightarrow> res
         | SecondSelect \<Rightarrow>
             if snd res \<noteq> None then (None, snd res) else (None, Some timeout_exceeded)
         | GraceExpired \<Rightarrow> (None, Some timeout_exceeded_force))"

section \<open>The parallel fetch orchestrator\<close>

subsection \<open>Cover and lyrics\<close>

record LyricsResponse =
  Lines :: "string list"

record ParallelDownloadResult =
  CoverData :: "8 word list"
  LyricsData :: "LyricsResponse option"
  LyricsLRC :: string
  CoverErr :: "go_error option"
  LyricsErr :: "go_error option"

text \<open>
  The collaborators: the cover download, the lyrics client (it is given the duration in
  milliseconds; the conversion to seconds is a floating-point division) and the LRC
  renderer.
\<close>

record fetchers =
  downloadCoverToMemory :: "string \<Rightarrow> bool \<Rightarrow> go_error + 8 word list"
  FetchLyricsAllSources ::
    "string \<Rightarrow> string \<Rightarrow> string \<Rightarrow> 64 word \<Rightarrow> go_error + LyricsResponse option"
  convertToLRCWithMetadata :: "LyricsResponse \<Rightarrow> string \<Rightarrow> string \<Rightarrow> string"

definition cover_task ::
  "fetchers \<Rightarrow> string \<Rightarrow> bool \<Rightarrow> ParallelDownloadResult \<Rightarrow> ParallelDownloadResult" where
  "cover_task f coverURL maxQualityCover result =
     (case downloadCoverToMemory f coverURL maxQualityCover of
        Inl err \<Rightarrow> result\<lparr>CoverErr := Some err\<rparr>
      | Inr data \<Rightarrow> result\<lparr>CoverData := data\<rparr>)"

definition lyrics_task ::
  "fetchers \<Rightarrow> string \<Rightarrow> string \<Rightarrow> string \<Rightarrow> 64 word \<Rightarrow> ParallelDownloadResult
     \<Rightarrow> ParallelDownloadResult" where
  "lyrics_task f spotifyID trackName artistName durationMs result =
     (case FetchLyricsAllSources f spotifyID trackName artistName durationMs of
        Inl err \<Rightarrow> result\<lparr>LyricsErr := Some err\<rparr>
      | Inr lyrics \<Rightarrow>
          (case lyrics of
             Some l \<Rightarrow>
               if Lines l \<noteq> []
               then result\<lparr>LyricsData := Some l,
                           LyricsLRC := convertToLRCWithMetadata f l trackName artistName\<rparr>
               else result\<lparr>LyricsErr := Some (errorString ''no lyrics found'')\<rparr>
           | None \<Rightarrow> result\<lparr>LyricsErr := Some (errorString ''no lyrics found'')\<rparr>))"

text \<open>
  The two tasks run concurrently and the caller waits for both.  They write different
  fields of the result, so the model runs the cover task first.
\<close>

definition FetchCoverAndLyricsParallel ::
  "fetchers \<Rightarrow> string \<Rightarrow> bool \<Rightarrow> string \<Rightarrow> string \<Rightarrow> string \<Rightarrow> bool \<Rightarrow> 64 word
     \<Rightarrow> ParallelDownloadResult" where
  "FetchCoverAndLyricsParallel f coverURL maxQualityCover spotifyID trackName artistName
       embedLyrics durationMs =
     (let result = \<lparr>CoverData = [], LyricsData = None, LyricsLRC = [],
                     CoverErr = None, LyricsErr = None\<rparr>;
          result = (if coverURL \<noteq> [] then cover_task f coverURL maxQualityCover result
                    else result);
          result = (if embedLyrics
                    then lyrics_task f spotifyID trackName artistName durationMs result
                    else result)
      in result)"

subsection \<open>Pre-warming the track identifier cache\<close>

record PreWarmCacheRequest =
  ISRC :: string
  TrackName :: string
  ArtistName :: string
  SpotifyID :: string
  Service :: string

text \<open>
  The per-service lookups: a track search answers with an error or with a track (its id)
  or no track; the availability check answers with an error or with an availability record
  or none.
\<close>

record TrackAvailability =
  Amazon :: bool
  AmazonURL :: string

record resolvers =
  Tidal_SearchTrackByISRC :: "string \<Rightarrow> go_error + 64 word option"
  Qobuz_SearchTrackByISRC :: "string \<Rightarrow> go_error + 64 word option"
  CheckTrackAvailability :: "string \<Rightarrow> string \<Rightarrow> go_error + TrackAvailability option"

definition preWarmTidalCache ::
  "resolvers \<Rightarrow> TrackIDCache \<Rightarrow> Time \<Rightarrow> string \<Rightarrow> TrackIDCache" where
  "preWarmTidalCache rs c now isrc =
     (case Tidal_SearchTrackByISRC rs isrc of
        Inr (Some track_ID) \<Rightarrow> SetTidal c isrc track_ID now
      | _ \<Rightarrow> c)"

definition preWarmQobuzCache ::
  "resolvers \<Rightarrow> TrackIDCache \<Rightarrow> Time \<Rightarrow> string \<Rightarrow> TrackIDCache" where
  "preWarmQobuzCache rs c now isrc =
     (case Qobuz_SearchTrackByISRC rs isrc of
        Inr (Some track_ID) \<Rightarrow> SetQobuz c isrc track_ID now
      | _ \<Rightarrow> c)"

definition preWarmAmazonCache ::
  "resolvers \<Rightarrow> TrackIDCache \<Rightarrow> Time \<Rightarrow> string \<Rightarrow> string \<Rightarrow> TrackIDCache" where
  "preWarmAmazonCache rs c now isrc spotifyID =
     (case CheckTrackAvailability rs spotifyID isrc of
        Inr (Some availability) \<Rightarrow>
          if Amazon availability then SetAmazon c isrc (AmazonURL availability) now else c
      | _ \<Rightarrow> c)"

definition dispatch ::
  "resolvers \<Rightarrow> TrackIDCache \<Rightarrow> Time \<Rightarrow> PreWarmCacheRequest \<Rightarrow> TrackIDCache" where
  "dispatch rs c now r =
     (if Service r = ''tidal'' then preWarmTidalCache rs c now (ISRC r)
      else if Service r = ''qobuz'' then preWarmQobuzCache rs c now (ISRC r)
      else if Service r = ''amazon'' then preWarmAmazonCache rs c now (ISRC r) (SpotifyID r)
      else c)"

text \<open>
  \<open>PreWarmTrackCache\<close> tests every request against the cache in its loop and starts a task
  for each request without an entry; the tasks wait for their remote lookups and the
  caller waits for all of them after the loop.  The model takes the schedule in which the
  loop has tested every request before a task writes to the cache, the tasks then
  completing in the order of their requests, and one reading \<open>now\<close> of the clock for the
  batch.  Beside the cache it returns the requests for which a task was started.
\<close>

fun preWarmLoop ::
  "Time \<Rightarrow> PreWarmCacheRequest list \<Rightarrow> TrackIDCache
     \<Rightarrow> TrackIDCache \<times> PreWarmCacheRequest list" where
  "preWarmLoop now [] c = (c, [])"
| "preWarmLoop now (req # requests) c =
     (case Get c (ISRC req) now now of
        (Some cached, c) \<Rightarrow> preWarmLoop now requests c
      | (None, c) \<Rightarrow>
          (case preWarmLoop now requests c of
             (c, started) \<Rightarrow> (c, req # started)))"

definition PreWarmTrackCache ::
  "resolvers \<Rightarrow> Time \<Rightarrow> PreWarmCacheRequest list \<Rightarrow> TrackIDCache
     \<Rightarrow> TrackIDCache \<times> PreWarmCacheRequest list" where
  "PreWarmTrackCache rs now requests c =
     (if length requests = 0 then (c, [])
      else
        (case preWarmLoop now requests c of
           (c, started) \<Rightarrow> (foldl (\<lambda>c r. dispatch rs c now r) c started, started)))"

text \<open>
  The host entry point declares an empty request list, starts \<open>PreWarmTrackCache\<close> on it
  and returns no error.  The text \<open>tracksJSON\<close> is not read.
\<close>

definition PreWarmCache ::
  "resolvers \<Rightarrow> Time \<Rightarrow> string \<Rightarrow> TrackIDCache
     \<Rightarrow> go_error option \<times> TrackIDCache \<times> PreWarmCacheRequest list" where
  "PreWarmCache rs now tracksJSON c =
     (let requests = [] :: PreWarmCacheRequest list
      in (None, PreWarmTrackCache rs now requests c))"

section \<open>Properties\<close>

subsection \<open>Facts about the path operations\<close>

lemma elements_proper:
  "CHR ''/'' \<notin> set cur \<Longrightarrow> e \<in> set (elements cur s) \<Longrightarrow> e \<noteq> [] \<and> CHR ''/'' \<notin> set e"
proof (induction s arbitrary: cur)
  case Nil
  then show ?case by (auto split: if_splits)
next
  case (Cons c cs)
  show ?case
  proof (cases "c = CHR ''/''")
    case True
    with Cons.prems have "e = cur \<and> cur \<noteq> [] \<or> e \<in> set (elements [] cs)"
      by (auto split: if_splits)
    then show ?thesis
      using Cons.IH [of "[]"] Cons.prems(1) by auto
  next
    case False
    with Cons.prems have "e \<in> set (elements (cur @ [c]) cs)" by simp
    moreover from False Cons.prems(1) have "CHR ''/'' \<notin> set (cur @ [c])" by simp
    ultimately show ?thesis using Cons.IH by blast
  qed
qed

lemma resolve_rooted_elems:
  "e \<in> set (resolve True out es) \<Longrightarrow>
     e \<in> set out \<or> (e \<in> set es \<and> e \<noteq> ''.'' \<and> e \<noteq> ''..'')"
proof (induction es arbitrary: out)
  case Nil
  then show ?case by simp
next
  case (Cons x xs)
  consider (skip_dot) "x = ''.''" | (backtrack) "x = ''..''" "out \<noteq> [] \<and> hd out \<noteq> ''..''"
    | (blocked) "x = ''..''" "\<not> (out \<noteq> [] \<and> hd out \<noteq> ''..'')"
    | (element) "x \<noteq> ''.''" "x \<noteq> ''..''"
    by blast
  then show ?case
  proof cases
    case skip_dot
    with Cons.prems have "e \<in> set (resolve True out xs)" by simp
    from Cons.IH [OF this] show ?thesis by auto
  next
    case backtrack
    with Cons.prems have "e \<in> set (resolve True (tl out) xs)" by simp
    from Cons.IH [OF this] backtrack show ?thesis
      by (auto dest: list.set_sel(2))
  next
    case blocked
    with Cons.prems have "e \<in> set (resolve True out xs)" by simp
    from Cons.IH [OF this] show ?thesis by auto
  next
    case element
    with Cons.prems have "e \<in> set (resolve True (x # out) xs)" by simp
    from Cons.IH [OF this] element show ?thesis by auto
  qed
qed

lemma elements_append:
  "CHR ''/'' \<notin> set e \<Longrightarrow> elements cur (e @ rest) = elements (cur @ e) rest"
  by (induction e arbitrary: cur) auto

lemma elements_join_sep:
  "\<forall>e \<in> set xs. e \<noteq> [] \<and> CHR ''/'' \<notin> set e \<Longrightarrow> elements [] (join_sep xs) = xs"
proof (induction xs rule: join_sep.induct)
  case 1
  then show ?case by simp
next
  case (2 e)
  then show ?case using elements_append [of e "[]" "[]"] by simp
next
  case (3 e v va)
  then show ?case using elements_append [of e "[]" "CHR ''/'' # join_sep (v # va)"] by simp
qed

lemma resolve_no_dots:
  "\<forall>e \<in> set es. e \<noteq> ''.'' \<and> e \<noteq> ''..'' \<Longrightarrow> resolve rooted out es = rev out @ es"
  by (induction es arbitrary: out) auto

lemma IsAbs_Clean: "IsAbs path \<Longrightarrow> IsAbs (Clean path)"
  by (auto simp: Clean_def IsAbs_def Let_def)

lemma Clean_idem_rooted:
  assumes "IsAbs path"
  shows "Clean (Clean path) = Clean path"
proof -
  define out where "out = resolve True [] (elements [] path)"
  from assms have ne: "path \<noteq> []" by (auto simp: IsAbs_def)
  have cp: "Clean path = ''/'' @ join_sep out"
    using assms ne by (simp add: Clean_def out_def)
  have in_es: "e \<in> set (elements [] path) \<and> e \<noteq> ''.'' \<and> e \<noteq> ''..''" if "e \<in> set out" for e
    using resolve_rooted_elems [of e "[]" "elements [] path"] that by (simp add: out_def)
  have proper: "\<forall>e \<in> set out. e \<noteq> [] \<and> CHR ''/'' \<notin> set e"
    using in_es elements_proper [of "[]"] by auto
  have nodots: "\<forall>e \<in> set out. e \<noteq> ''.'' \<and> e \<noteq> ''..''"
    using in_es by blast
  have "elements [] (''/'' @ join_sep out) = out"
    using elements_join_sep [OF proper] by simp
  moreover have "resolve True [] out = out"
    using resolve_no_dots [OF nodots, of True "[]"] by simp
  moreover have "IsAbs (''/'' @ join_sep out)"
    by (simp add: IsAbs_def)
  ultimately have "Clean (''/'' @ join_sep out) = ''/'' @ join_sep out"
    by (simp add: Clean_def)
  with cp show ?thesis by simp
qed

lemma isPathInAllowedDirs_iff:
  "isPathInAllowedDirs dirs absPath \<longleftrightarrow> (\<exists>allowedDir \<in> set dirs. prefix allowedDir absPath)"
  by (induction dirs) auto

subsection \<open>Path validation\<close>

text \<open>
  C1. The claim is that a relative path whose resolution leaves the private data
  directory is rejected.  \<open>validatePath\<close> compares the resolved path with the data
  directory as strings, so a sibling directory whose name continues the data directory's
  name passes: with the data directory \<open>/data/extensions/ext1\<close>, the argument
  \<open>../ext10/secrets.json\<close> resolves to \<open>/data/extensions/ext10/secrets.json\<close>, which is
  accepted and is not inside \<open>/data/extensions/ext1\<close>.
\<close>

theorem validatePath_accepts_sibling_directory:
  "validatePath \<lparr>manifest_Permissions_File = True, dataDir = ''/data/extensions/ext1''\<rparr> []
       (Inr ''/'') ''../ext10/secrets.json'' = Inr ''/data/extensions/ext10/secrets.json''
   \<and> \<not> inside_dir ''/data/extensions/ext1'' ''/data/extensions/ext10/secrets.json''"
  by code_simp

text \<open>
  What \<open>validatePath\<close> computes for an absolute path: the cleaned path, when some stored
  entry of the allowed list is a prefix of it as a string, and the absolute-path denial
  otherwise.
\<close>

lemma validatePath_absolute_prefix_test:
  assumes "manifest_Permissions_File r" and "IsAbs path"
  shows "validatePath r allowedDownloadDirs wd path
           = (if \<exists>allowedDir \<in> set allowedDownloadDirs. prefix allowedDir (Clean path)
              then Inr (Clean path) else Inl AbsolutePathNotAllowed)"
  using assms IsAbs_Clean [OF assms(2)] Clean_idem_rooted [OF assms(2)]
  by (simp add: validatePath_def Abs_def isPathInAllowedDirs_iff)

text \<open>
  C2. The claim is that an absolute path is accepted exactly when a registered allowed
  directory, resolved to its absolute form, is a prefix of the resolved path.  The check
  compares with the stored strings.  \<open>AddAllowedDownloadDir\<close> stores the resolved
  directory, \<open>SetAllowedDownloadDirs\<close> does not: after it, the registered directory
  \<open>/sdcard/Music/../Download\<close>, which resolves to \<open>/sdcard/Download\<close>, does not admit
  \<open>/sdcard/Download/a.flac\<close>, and the registered \<open>/sdcard/Music/\<close> does not admit
  \<open>/sdcard/Music\<close>; the same directory registered by \<open>AddAllowedDownloadDir\<close> admits the
  same path.  The comparison is also one of strings, not of path elements: the allowed
  directory \<open>/sdcard/Music\<close> admits \<open>/sdcard/Music2/x.flac\<close>, which is not inside it.
\<close>

theorem validatePath_allowed_directory_slips:
  "Abs (Inr ''/'') ''/sdcard/Music/../Download'' = Inr ''/sdcard/Download''
   \<and> Abs (Inr ''/'') ''/sdcard/Download/a.flac'' = Inr ''/sdcard/Download/a.flac''
   \<and> prefix ''/sdcard/Download'' ''/sdcard/Download/a.flac''
   \<and> validatePath \<lparr>manifest_Permissions_File = True, dataDir = ''/data/extensions/ext1''\<rparr>
        (SetAllowedDownloadDirs [''/sdcard/Music/../Download''] []) (Inr ''/'')
        ''/sdcard/Download/a.flac'' = Inl AbsolutePathNotAllowed
   \<and> validatePath \<lparr>manifest_Permissions_File = True, dataDir = ''/data/extensions/ext1''\<rparr>
        (AddAllowedDownloadDir (Inr ''/'') ''/sdcard/Music/../Download'' []) (Inr ''/'')
        ''/sdcard/Download/a.flac'' = Inr ''/sdcard/Download/a.flac''
   \<and> Abs (Inr ''/'') ''/sdcard/Music/'' = Inr ''/sdcard/Music''
   \<and> Abs (Inr ''/'') ''/sdcard/Music'' = Inr ''/sdcard/Music''
   \<and> validatePath \<lparr>manifest_Permissions_File = True, dataDir = ''/data/extensions/ext1''\<rparr>
        (SetAllowedDownloadDirs [''/sdcard/Music/''] []) (Inr ''/'')
        ''/sdcard/Music'' = Inl AbsolutePathNotAllowed
   \<and> validatePath \<lparr>manifest_Permissions_File = True, dataDir = ''/data/extensions/ext1''\<rparr>
        (AddAllowedDownloadDir (Inr ''/'') ''/sdcard/Music'' []) (Inr ''/'')
        ''/sdcard/Music2/x.flac'' = Inr ''/sdcard/Music2/x.flac''
   \<and> \<not> inside_dir ''/sdcard/Music'' ''/sdcard/Music2/x.flac''"
  by code_simp

text \<open>
  C10. \<open>fileExists\<close> always answers with a plain boolean, and with \<open>false\<close> when there is
  no argument, when \<open>validatePath\<close> fails for any reason, and when the file cannot be
  found; the answer does not tell these apart.  The sibling \<open>fileGetSize\<close> answers a
  failed validation with an object that carries the error's message.
\<close>

theorem fileExists_plain_boolean:
  "(\<exists>b. fileExists r dirs wd stat arguments = Bool b)
   \<and> (arguments = [] \<longrightarrow> fileExists r dirs wd stat arguments = Bool False)
   \<and> (\<forall>path rest err. arguments = path # rest \<and> validatePath r dirs wd path = Inl err
        \<longrightarrow> fileExists r dirs wd stat arguments = Bool False)
   \<and> (\<forall>path rest fullPath. arguments = path # rest
          \<and> validatePath r dirs wd path = Inr fullPath \<and> stat fullPath = None
        \<longrightarrow> fileExists r dirs wd stat arguments = Bool False)
   \<and> (\<forall>path rest err. arguments = path # rest \<and> validatePath r dirs wd path = Inl err
        \<longrightarrow> fileGetSize r dirs wd stat stat_error arguments
              = Object [(''success'', Bool False), (''error'', String (Error err))])"
  by (auto simp: fileExists_def fileGetSize_def split: list.splits sum.splits)

lemma validatePath_no_permission_example:
  "validatePath \<lparr>manifest_Permissions_File = False, dataDir = ''/data/extensions/ext1''\<rparr> []
     (Inr ''/'') ''notes.txt'' = Inl NoFilePermission"
  by code_simp

lemma validatePath_denied_example:
  "validatePath \<lparr>manifest_Permissions_File = True, dataDir = ''/data/extensions/ext1''\<rparr> []
     (Inr ''/'') ''/etc/passwd'' = Inl AbsolutePathNotAllowed"
  by code_simp

lemma validatePath_relative_example:
  "validatePath \<lparr>manifest_Permissions_File = True, dataDir = ''/data/extensions/ext1''\<rparr> []
     (Inr ''/'') ''notes.txt'' = Inr ''/data/extensions/ext1/notes.txt''"
  by code_simp

theorem fileExists_plain_boolean_witness:
  "validatePath \<lparr>manifest_Permissions_File = False, dataDir = ''/data/extensions/ext1''\<rparr> []
        (Inr ''/'') ''notes.txt'' = Inl NoFilePermission
   \<and> fileExists \<lparr>manifest_Permissions_File = False, dataDir = ''/data/extensions/ext1''\<rparr> []
        (Inr ''/'') (\<lambda>p. Some \<lparr>IsDir = False, Size = 3\<rparr>) [''notes.txt''] = Bool False
   \<and> validatePath \<lparr>manifest_Permissions_File = True, dataDir = ''/data/extensions/ext1''\<rparr> []
        (Inr ''/'') ''/etc/passwd'' = Inl AbsolutePathNotAllowed
   \<and> fileExists \<lparr>manifest_Permissions_File = True, dataDir = ''/data/extensions/ext1''\<rparr> []
        (Inr ''/'') (\<lambda>p. Some \<lparr>IsDir = False, Size = 3\<rparr>) [''/etc/passwd''] = Bool False
   \<and> validatePath \<lparr>manifest_Permissions_File = True, dataDir = ''/data/extensions/ext1''\<rparr> []
        (Inr ''/'') ''notes.txt'' = Inr ''/data/extensions/ext1/notes.txt''
   \<and> fileExists \<lparr>manifest_Permissions_File = True, dataDir = ''/data/extensions/ext1''\<rparr> []
        (Inr ''/'') (\<lambda>p. None) [''notes.txt''] = Bool False
   \<and> fileExists \<lparr>manifest_Permissions_File = True, dataDir = ''/data/extensions/ext1''\<rparr> []
        (Inr ''/'') (\<lambda>p. None) [] = Bool False"
  using
    fileExists_plain_boolean [of "\<lparr>manifest_Permissions_File = False, dataDir = ''/data/extensions/ext1''\<rparr>"
      "[]" "Inr ''/''" "\<lambda>p. Some \<lparr>IsDir = False, Size = 3\<rparr>" "[''notes.txt'']"]
    fileExists_plain_boolean [of "\<lparr>manifest_Permissions_File = True, dataDir = ''/data/extensions/ext1''\<rparr>"
      "[]" "Inr ''/''" "\<lambda>p. Some \<lparr>IsDir = False, Size = 3\<rparr>" "[''/etc/passwd'']"]
    fileExists_plain_boolean [of "\<lparr>manifest_Permissions_File = True, dataDir = ''/data/extensions/ext1''\<rparr>"
      "[]" "Inr ''/''" "\<lambda>p. None" "[''notes.txt'']"]
    fileExists_plain_boolean [of "\<lparr>manifest_Permissions_File = True, dataDir = ''/data/extensions/ext1''\<rparr>"
      "[]" "Inr ''/''" "\<lambda>p. None" "[]"]
  by (simp add: validatePath_no_permission_example validatePath_denied_example
      validatePath_relative_example)

subsection \<open>Letter case of identifiers\<close>













lemma ToUpper_example: "ToUpper u ''usrc17607839'' = ''USRC17607839''"
  by code_simp

lemma ToUpper_fixed_example: "ToUpper u ''USRC17607839'' = ''USRC17607839''"
  by code_simp



lemma ToUpper_latin1_example:
  "ToUpper latin1_tables (map char_of [0xC3, 0xA9, 0x31 :: nat])
     = map char_of [0xC3, 0x89, 0x31 :: nat]"
  by code_simp




subsection \<open>The track identifier cache\<close>

text \<open>
  C4. \<open>Get\<close> never returns an entry whose expiry is in the past: an entry it returns is the
  stored one, is not expired at the reading of the clock, and the cache is unchanged; an
  entry found expired is deleted and the call returns nothing.  The second reading of the
  clock is not earlier than the first.
\<close>

theorem Get_hides_expired:
  assumes "now1 \<le> now2"
  shows "(\<forall>e c'. Get c isrc now1 now2 = (Some e, c')
            \<longrightarrow> cache c isrc = Some e \<and> \<not> After now1 (ExpiresAt e) \<and> c' = c)
       \<and> (\<forall>e. cache c isrc = Some e \<and> After now1 (ExpiresAt e)
            \<longrightarrow> Get c isrc now1 now2 = (None, c\<lparr>cache := (cache c)(isrc := None)\<rparr>))"
  using assms by (auto simp: Get_def After_def Let_def split: option.splits if_splits)

theorem Get_hides_expired_witness:
  "(10::int) \<le> 11
   \<and> Get (GetTrackIDCache\<lparr>cache := [''USRC17607839'' \<mapsto> zero_entry\<lparr>ExpiresAt := 20\<rparr>]\<rparr>)
        ''USRC17607839'' 10 11
       = (Some (zero_entry\<lparr>ExpiresAt := 20\<rparr>),
          GetTrackIDCache\<lparr>cache := [''USRC17607839'' \<mapsto> zero_entry\<lparr>ExpiresAt := 20\<rparr>]\<rparr>)
   \<and> \<not> After 10 (ExpiresAt (zero_entry\<lparr>ExpiresAt := 20\<rparr>))
   \<and> After 10 (ExpiresAt (zero_entry\<lparr>ExpiresAt := 5\<rparr>))
   \<and> fst (Get (GetTrackIDCache\<lparr>cache := [''USRC17607839'' \<mapsto> zero_entry\<lparr>ExpiresAt := 5\<rparr>]\<rparr>)
        ''USRC17607839'' 10 11) = None
   \<and> cache (snd (Get (GetTrackIDCache\<lparr>cache := [''USRC17607839'' \<mapsto> zero_entry\<lparr>ExpiresAt := 5\<rparr>]\<rparr>)
        ''USRC17607839'' 10 11)) ''USRC17607839'' = None"
  using Get_hides_expired [of 10 11
      "GetTrackIDCache\<lparr>cache := [''USRC17607839'' \<mapsto> zero_entry\<lparr>ExpiresAt := 5\<rparr>]\<rparr>"
      "''USRC17607839''"]
    Get_hides_expired [of 10 11
      "GetTrackIDCache\<lparr>cache := [''USRC17607839'' \<mapsto> zero_entry\<lparr>ExpiresAt := 20\<rparr>]\<rparr>"
      "''USRC17607839''"]
  by (simp add: After_def zero_entry_def Get_def)

text \<open>
  C8. On an existing entry, each of \<open>SetTidal\<close>, \<open>SetQobuz\<close> and \<open>SetAmazon\<close> changes its
  own field and the expiry, which becomes \<open>now\<close> plus 30 minutes, and leaves the other two
  fields as they were.  The sweep that may follow does not remove the entry just written.
\<close>

theorem setters_update_own_field_only:
  assumes "cache c isrc = Some e" and "ttl c = 30 * Minute"
  shows "cache (SetTidal c isrc tidalID now) isrc
           = Some (e\<lparr>TidalTrackID := tidalID, ExpiresAt := now + 30 * Minute\<rparr>)
       \<and> cache (SetQobuz c isrc qobuzID now) isrc
           = Some (e\<lparr>QobuzTrackID := qobuzID, ExpiresAt := now + 30 * Minute\<rparr>)
       \<and> cache (SetAmazon c isrc amazonID now) isrc
           = Some (e\<lparr>AmazonTrackID := amazonID, ExpiresAt := now + 30 * Minute\<rparr>)"
  using assms
  by (simp add: SetTidal_def SetQobuz_def SetAmazon_def pruneExpiredLocked_def Let_def
      After_def Add_def Minute_def)

theorem setters_update_own_field_only_witness:
  "cache (GetTrackIDCache\<lparr>cache := [''USRC17607839'' \<mapsto>
        \<lparr>TidalTrackID = 1, QobuzTrackID = 2, AmazonTrackID = ''B00X'', ExpiresAt = 50\<rparr>]\<rparr>)
      ''USRC17607839''
     = Some \<lparr>TidalTrackID = 1, QobuzTrackID = 2, AmazonTrackID = ''B00X'', ExpiresAt = 50\<rparr>
   \<and> ttl (GetTrackIDCache\<lparr>cache := [''USRC17607839'' \<mapsto>
        \<lparr>TidalTrackID = 1, QobuzTrackID = 2, AmazonTrackID = ''B00X'', ExpiresAt = 50\<rparr>]\<rparr>)
     = 30 * Minute
   \<and> cache (SetTidal (GetTrackIDCache\<lparr>cache := [''USRC17607839'' \<mapsto>
        \<lparr>TidalTrackID = 1, QobuzTrackID = 2, AmazonTrackID = ''B00X'', ExpiresAt = 50\<rparr>]\<rparr>)
        ''USRC17607839'' 9 100) ''USRC17607839''
     = Some \<lparr>TidalTrackID = 9, QobuzTrackID = 2, AmazonTrackID = ''B00X'',
             ExpiresAt = 100 + 30 * Minute\<rparr>
   \<and> cache (SetQobuz (GetTrackIDCache\<lparr>cache := [''USRC17607839'' \<mapsto>
        \<lparr>TidalTrackID = 1, QobuzTrackID = 2, AmazonTrackID = ''B00X'', ExpiresAt = 50\<rparr>]\<rparr>)
        ''USRC17607839'' 9 100) ''USRC17607839''
     = Some \<lparr>TidalTrackID = 1, QobuzTrackID = 9, AmazonTrackID = ''B00X'',
             ExpiresAt = 100 + 30 * Minute\<rparr>
   \<and> cache (SetAmazon (GetTrackIDCache\<lparr>cache := [''USRC17607839'' \<mapsto>
        \<lparr>TidalTrackID = 1, QobuzTrackID = 2, AmazonTrackID = ''B00X'', ExpiresAt = 50\<rparr>]\<rparr>)
        ''USRC17607839'' ''B09Y'' 100) ''USRC17607839''
     = Some \<lparr>TidalTrackID = 1, QobuzTrackID = 2, AmazonTrackID = ''B09Y'',
             ExpiresAt = 100 + 30 * Minute\<rparr>"
  using setters_update_own_field_only [of
      "GetTrackIDCache\<lparr>cache := [''USRC17607839'' \<mapsto>
        \<lparr>TidalTrackID = 1, QobuzTrackID = 2, AmazonTrackID = ''B00X'', ExpiresAt = 50\<rparr>]\<rparr>"
      "''USRC17607839''"
      "\<lparr>TidalTrackID = 1, QobuzTrackID = 2, AmazonTrackID = ''B00X'', ExpiresAt = 50\<rparr>"
      9 100 9 "''B09Y''"]
  by (simp add: GetTrackIDCache_def)

subsection \<open>The content file index\<close>

text \<open>
  C7. When the index that the check consults holds the identifier and the file behind it
  is missing (\<open>os.Stat\<close> fails, or it is a directory, or its size is zero), the check
  answers not-found and the index object of the directory no longer holds the identifier.
\<close>

theorem stale_entry_is_evicted:
  assumes "dir \<noteq> []"
    and "GetISRCIndex u isrcIndexCache d now1 now2 now3 dir = (idx, isrcIndexCache')"
    and "lookup u idx isrc = (filePath, True)"
    and "case os_Stat d filePath of None \<Rightarrow> True | Some info \<Rightarrow> IsDir info \<or> Size info = 0"
  shows "checkISRCExistsInternal u isrcIndexCache d now1 now2 now3 dir isrc
           = (([], False), isrcIndexCache'(dir \<mapsto> remove u idx isrc))
       \<and> isrcIndexCache' dir = Some idx
       \<and> index (remove u idx isrc) (ToUpper u isrc) = None
       \<and> lookup u (remove u idx isrc) isrc = ([], False)"
proof -
  from assms(3) have ne: "isrc \<noteq> []"
    by (auto simp: lookup_def)
  from assms(4) have missing: "\<not> CheckFileExists (os_Stat d) filePath"
    by (auto simp: CheckFileExists_def split: option.splits)
  have stored: "isrcIndexCache' dir = Some idx"
    using assms(1,2)
    by (auto simp: GetISRCIndex_def buildISRCIndex_def Let_def split: option.splits if_splits)
  have "checkISRCExistsInternal u isrcIndexCache d now1 now2 now3 dir isrc
           = (([], False), isrcIndexCache'(dir \<mapsto> remove u idx isrc))"
    using assms(1-3) missing ne by (simp add: checkISRCExistsInternal_def)
  moreover have "index (remove u idx isrc) (ToUpper u isrc) = None"
    using ne by (simp add: remove_def)
  moreover have "lookup u (remove u idx isrc) isrc = ([], False)"
    using ne by (simp add: remove_def lookup_def)
  ultimately show ?thesis using stored by simp
qed

lemma Sub_example: "Sub 200 100 = 100"
  by (simp add: Sub_def maxDuration_def minDuration_def)

theorem stale_entry_is_evicted_witness:
  "fst (checkISRCExistsInternal latin1_tables
      [''/music'' \<mapsto> \<lparr>index = [''USRC17607839'' \<mapsto> ''/music/a.flac''], outputDir = ''/music'',
                        buildTime = 100\<rparr>]
      \<lparr>filepath_Walk = (\<lambda>dir. []), os_Stat = (\<lambda>p. None), ReadMetadata = (\<lambda>p. Inl ''unreadable'')\<rparr>
      200 200 200 ''/music'' ''usrc17607839'') = ([], False)
   \<and> map_option index (snd (checkISRCExistsInternal latin1_tables
      [''/music'' \<mapsto> \<lparr>index = [''USRC17607839'' \<mapsto> ''/music/a.flac''], outputDir = ''/music'',
                        buildTime = 100\<rparr>]
      \<lparr>filepath_Walk = (\<lambda>dir. []), os_Stat = (\<lambda>p. None), ReadMetadata = (\<lambda>p. Inl ''unreadable'')\<rparr>
      200 200 200 ''/music'' ''usrc17607839'') ''/music'') = Some Map.empty"
proof -
  let ?idx = "\<lparr>index = [''USRC17607839'' \<mapsto> ''/music/a.flac''], outputDir = ''/music'',
               buildTime = 100\<rparr>"
  let ?d = "\<lparr>filepath_Walk = (\<lambda>dir. []), os_Stat = (\<lambda>p. None),
             ReadMetadata = (\<lambda>p. Inl ''unreadable'')\<rparr>"
  have h1: "''/music'' \<noteq> []" by simp
  have h2: "GetISRCIndex latin1_tables [''/music'' \<mapsto> ?idx] ?d 200 200 200 ''/music''
              = (?idx, [''/music'' \<mapsto> ?idx])"
    by (simp add: GetISRCIndex_def Sub_example isrcIndexTTL_def Minute_def)
  have h3: "lookup latin1_tables ?idx ''usrc17607839'' = (''/music/a.flac'', True)"
    by (simp add: lookup_def ToUpper_example)
  have h4: "case os_Stat ?d ''/music/a.flac'' of None \<Rightarrow> True
            | Some info \<Rightarrow> IsDir info \<or> Size info = 0"
    by simp
  show ?thesis
    using stale_entry_is_evicted [OF h1 h2 h3 h4]
    by (simp add: remove_def ToUpper_example fun_eq_iff)
qed

subsection \<open>The script execution controller\<close>

text \<open>
  C6, as amended.  A panic of the script is always recovered: \<open>RunWithTimeout\<close> returns an
  error value.  When the recovery handler reads the \<open>interrupted\<close> flag unset and its
  result reaches the caller before the grace period ends, the error is the plain
  execution error, for which \<open>IsTimeoutError\<close> is false.  A panic raised after the flag
  was set is reported as a timeout, and so is every execution whose result does not
  arrive within the grace period.
\<close>

theorem panic_classification:
  "(\<exists>e. RunWithTimeout (Panics r) s = (None, Some e))
   \<and> (\<not> read_after_flag s \<and> received s \<noteq> GraceExpired \<longrightarrow>
        RunWithTimeout (Panics r) s
          = (None, Some (errorString (''panic during execution: '' @ r)))
        \<and> \<not> IsTimeoutError (snd (RunWithTimeout (Panics r) s)))
   \<and> (possible s \<and> panic_after_flag s \<longrightarrow>
        IsTimeoutError (snd (RunWithTimeout (Panics r) s)))
   \<and> (received s = GraceExpired \<longrightarrow>
        RunWithTimeout (Panics r) s = (None, Some timeout_exceeded_force)
        \<and> IsTimeoutError (snd (RunWithTimeout (Panics r) s)))"
  by (cases "received s")
    (auto simp: RunWithTimeout_def run_task_def possible_def IsTimeoutError_def
      timeout_exceeded_def timeout_exceeded_force_def)

theorem panic_classification_witness:
  "\<not> read_after_flag \<lparr>panic_after_flag = False, read_after_flag = False, received = FirstSelect\<rparr>
   \<and> received \<lparr>panic_after_flag = False, read_after_flag = False, received = FirstSelect\<rparr>
       \<noteq> GraceExpired
   \<and> RunWithTimeout (Panics ''nil pointer dereference'')
        \<lparr>panic_after_flag = False, read_after_flag = False, received = FirstSelect\<rparr>
       = (None, Some (errorString ''panic during execution: nil pointer dereference''))
   \<and> \<not> IsTimeoutError (snd (RunWithTimeout (Panics ''nil pointer dereference'')
        \<lparr>panic_after_flag = False, read_after_flag = False, received = FirstSelect\<rparr>))
   \<and> possible \<lparr>panic_after_flag = True, read_after_flag = True, received = SecondSelect\<rparr>
   \<and> panic_after_flag \<lparr>panic_after_flag = True, read_after_flag = True, received = SecondSelect\<rparr>
   \<and> IsTimeoutError (snd (RunWithTimeout (Panics ''nil pointer dereference'')
        \<lparr>panic_after_flag = True, read_after_flag = True, received = SecondSelect\<rparr>))
   \<and> received \<lparr>panic_after_flag = True, read_after_flag = True, received = GraceExpired\<rparr>
       = GraceExpired
   \<and> RunWithTimeout (Panics ''nil pointer dereference'')
        \<lparr>panic_after_flag = True, read_after_flag = True, received = GraceExpired\<rparr>
       = (None, Some timeout_exceeded_force)"
  using
    panic_classification [of "''nil pointer dereference''"
      "\<lparr>panic_after_flag = False, read_after_flag = False, received = FirstSelect\<rparr>"]
    panic_classification [of "''nil pointer dereference''"
      "\<lparr>panic_after_flag = True, read_after_flag = True, received = SecondSelect\<rparr>"]
    panic_classification [of "''nil pointer dereference''"
      "\<lparr>panic_after_flag = True, read_after_flag = True, received = GraceExpired\<rparr>"]
  by (simp add: possible_def IsTimeoutError_def)

text \<open>
  C6, as stated, fails: a panic that the interrupt did not cause can be reported as a
  timeout.  Nothing orders the caller's write of the flag against the panic and the
  handler's read: a panic raised before the flag is set, whose handler reads the flag
  after the caller has set it, is reported as a timeout; and when the handler reads the
  flag unset but its result comes after the grace period, the caller has returned the
  forced timeout.  Both schedules respect the order of each side's steps.
\<close>

theorem panic_before_flag_reported_as_timeout:
  "possible \<lparr>panic_after_flag = False, read_after_flag = True, received = SecondSelect\<rparr>
   \<and> RunWithTimeout (Panics ''nil pointer dereference'')
        \<lparr>panic_after_flag = False, read_after_flag = True, received = SecondSelect\<rparr>
       = (None, Some timeout_exceeded)
   \<and> IsTimeoutError (snd (RunWithTimeout (Panics ''nil pointer dereference'')
        \<lparr>panic_after_flag = False, read_after_flag = True, received = SecondSelect\<rparr>))
   \<and> possible \<lparr>panic_after_flag = False, read_after_flag = False, received = GraceExpired\<rparr>
   \<and> RunWithTimeout (Panics ''nil pointer dereference'')
        \<lparr>panic_after_flag = False, read_after_flag = False, received = GraceExpired\<rparr>
       = (None, Some timeout_exceeded_force)
   \<and> IsTimeoutError (snd (RunWithTimeout (Panics ''nil pointer dereference'')
        \<lparr>panic_after_flag = False, read_after_flag = False, received = GraceExpired\<rparr>))"
  by (simp add: RunWithTimeout_def run_task_def possible_def IsTimeoutError_def
      timeout_exceeded_def timeout_exceeded_force_def)

subsection \<open>The parallel fetch orchestrator\<close>

text \<open>
  C9. The cover task's outcome lands in \<open>CoverData\<close> and \<open>CoverErr\<close>, the lyrics task's in
  \<open>LyricsData\<close>, \<open>LyricsLRC\<close> and \<open>LyricsErr\<close>, each whatever the other task did; and when
  lyrics with at least one line come back, \<open>LyricsLRC\<close> is their rendering by
  \<open>convertToLRCWithMetadata\<close> with the track and artist names.
\<close>

theorem cover_and_lyrics_independent:
  assumes "result = FetchCoverAndLyricsParallel f coverURL maxQualityCover spotifyID trackName
                      artistName embedLyrics durationMs"
  shows "(coverURL \<noteq> [] \<and> downloadCoverToMemory f coverURL maxQualityCover = Inr data
            \<longrightarrow> CoverData result = data \<and> CoverErr result = None)
       \<and> (coverURL \<noteq> [] \<and> downloadCoverToMemory f coverURL maxQualityCover = Inl cerr
            \<longrightarrow> CoverData result = [] \<and> CoverErr result = Some cerr)
       \<and> (embedLyrics
            \<and> FetchLyricsAllSources f spotifyID trackName artistName durationMs = Inr (Some l)
            \<and> Lines l \<noteq> []
            \<longrightarrow> LyricsData result = Some l
              \<and> LyricsLRC result = convertToLRCWithMetadata f l trackName artistName
              \<and> LyricsErr result = None)
       \<and> (embedLyrics
            \<and> FetchLyricsAllSources f spotifyID trackName artistName durationMs = Inl lerr
            \<longrightarrow> LyricsData result = None \<and> LyricsLRC result = []
              \<and> LyricsErr result = Some lerr)"
  unfolding assms
  by (auto simp: FetchCoverAndLyricsParallel_def cover_task_def lyrics_task_def Let_def
      split: sum.splits option.splits)

theorem cover_and_lyrics_independent_witness:
  "CoverData (FetchCoverAndLyricsParallel
       \<lparr>downloadCoverToMemory = (\<lambda>url maxQuality. Inr [255, 216, 255]),
        FetchLyricsAllSources = (\<lambda>spotifyID trackName artistName durationMs.
                                   Inl (errorString ''lyrics unavailable'')),
        convertToLRCWithMetadata = (\<lambda>l trackName artistName.
                                   ''[ti:'' @ trackName @ '']'' @ ''[ar:'' @ artistName @ '']'')\<rparr>
       ''https://i.example/cover.jpg'' True ''4uLU6hMCjMI75M1A2tKUQC'' ''Song'' ''Artist'' True
       215000) = [255, 216, 255]
   \<and> LyricsErr (FetchCoverAndLyricsParallel
       \<lparr>downloadCoverToMemory = (\<lambda>url maxQuality. Inr [255, 216, 255]),
        FetchLyricsAllSources = (\<lambda>spotifyID trackName artistName durationMs.
                                   Inl (errorString ''lyrics unavailable'')),
        convertToLRCWithMetadata = (\<lambda>l trackName artistName.
                                   ''[ti:'' @ trackName @ '']'' @ ''[ar:'' @ artistName @ '']'')\<rparr>
       ''https://i.example/cover.jpg'' True ''4uLU6hMCjMI75M1A2tKUQC'' ''Song'' ''Artist'' True
       215000) = Some (errorString ''lyrics unavailable'')
   \<and> CoverErr (FetchCoverAndLyricsParallel
       \<lparr>downloadCoverToMemory = (\<lambda>url maxQuality. Inl (errorString ''HTTP 404'')),
        FetchLyricsAllSources = (\<lambda>spotifyID trackName artistName durationMs.
                                   Inr (Some \<lparr>Lines = [''la la'']\<rparr>)),
        convertToLRCWithMetadata = (\<lambda>l trackName artistName.
                                   ''[ti:'' @ trackName @ '']'' @ ''[ar:'' @ artistName @ '']'')\<rparr>
       ''https://i.example/cover.jpg'' True ''4uLU6hMCjMI75M1A2tKUQC'' ''Song'' ''Artist'' True
       215000) = Some (errorString ''HTTP 404'')
   \<and> LyricsLRC (FetchCoverAndLyricsParallel
       \<lparr>downloadCoverToMemory = (\<lambda>url maxQuality. Inl (errorString ''HTTP 404'')),
        FetchLyricsAllSources = (\<lambda>spotifyID trackName artistName durationMs.
                                   Inr (Some \<lparr>Lines = [''la la'']\<rparr>)),
        convertToLRCWithMetadata = (\<lambda>l trackName artistName.
                                   ''[ti:'' @ trackName @ '']'' @ ''[ar:'' @ artistName @ '']'')\<rparr>
       ''https://i.example/cover.jpg'' True ''4uLU6hMCjMI75M1A2tKUQC'' ''Song'' ''Artist'' True
       215000) = ''[ti:Song][ar:Artist]''"
  using cover_and_lyrics_independent [OF refl, where
      f = "\<lparr>downloadCoverToMemory = (\<lambda>url maxQuality. Inr [255, 216, 255]),
        FetchLyricsAllSources = (\<lambda>spotifyID trackName artistName durationMs.
                                   Inl (errorString ''lyrics unavailable'')),
        convertToLRCWithMetadata = (\<lambda>l trackName artistName.
                                   ''[ti:'' @ trackName @ '']'' @ ''[ar:'' @ artistName @ '']'')\<rparr>"
      and coverURL = "''https://i.example/cover.jpg''" and maxQualityCover = True
      and spotifyID = "''4uLU6hMCjMI75M1A2tKUQC''" and trackName = "''Song''"
      and artistName = "''Artist''" and embedLyrics = True and durationMs = 215000
      and data = "[255, 216, 255]" and cerr = "errorString ''HTTP 404''"
      and l = "\<lparr>Lines = [''la la'']\<rparr>" and lerr = "errorString ''lyrics unavailable''"]
    cover_and_lyrics_independent [OF refl, where
      f = "\<lparr>downloadCoverToMemory = (\<lambda>url maxQuality. Inl (errorString ''HTTP 404'')),
        FetchLyricsAllSources = (\<lambda>spotifyID trackName artistName durationMs.
                                   Inr (Some \<lparr>Lines = [''la la'']\<rparr>)),
        convertToLRCWithMetadata = (\<lambda>l trackName artistName.
                                   ''[ti:'' @ trackName @ '']'' @ ''[ar:'' @ artistName @ '']'')\<rparr>"
      and coverURL = "''https://i.example/cover.jpg''" and maxQualityCover = True
      and spotifyID = "''4uLU6hMCjMI75M1A2tKUQC''" and trackName = "''Song''"
      and artistName = "''Artist''" and embedLyrics = True and durationMs = 215000
      and data = "[255, 216, 255]" and cerr = "errorString ''HTTP 404''"
      and l = "\<lparr>Lines = [''la la'']\<rparr>" and lerr = "errorString ''lyrics unavailable''"]
  by simp

text \<open>
  C5. The claim is that the host entry point hands every request without a cache entry to
  the resolver of its service.  \<open>PreWarmCache\<close> never reads its argument: for every text
  it starts no task and leaves the cache as it was, while \<open>PreWarmTrackCache\<close> on the
  one request for the service \<open>tidal\<close> starts the Tidal resolver and stores the
  identifier it finds.
\<close>

theorem PreWarmCache_starts_nothing:
  "PreWarmCache rs now tracksJSON c = (None, c, [])
   \<and> snd (PreWarmTrackCache
       \<lparr>Tidal_SearchTrackByISRC = (\<lambda>isrc. Inr (Some 42)),
        Qobuz_SearchTrackByISRC = (\<lambda>isrc. Inr None),
        CheckTrackAvailability = (\<lambda>spotifyID isrc. Inr None)\<rparr>
       1000
       [\<lparr>ISRC = ''USRC17607839'', TrackName = [], ArtistName = [], SpotifyID = [],
         Service = ''tidal''\<rparr>]
       GetTrackIDCache)
     = [\<lparr>ISRC = ''USRC17607839'', TrackName = [], ArtistName = [], SpotifyID = [],
         Service = ''tidal''\<rparr>]
   \<and> map_option TidalTrackID (cache (fst (PreWarmTrackCache
       \<lparr>Tidal_SearchTrackByISRC = (\<lambda>isrc. Inr (Some 42)),
        Qobuz_SearchTrackByISRC = (\<lambda>isrc. Inr None),
        CheckTrackAvailability = (\<lambda>spotifyID isrc. Inr None)\<rparr>
       1000
       [\<lparr>ISRC = ''USRC17607839'', TrackName = [], ArtistName = [], SpotifyID = [],
         Service = ''tidal''\<rparr>]
       GetTrackIDCache)) ''USRC17607839'') = Some 42"
  by (simp add: PreWarmCache_def PreWarmTrackCache_def GetTrackIDCache_def Get_def
      dispatch_def preWarmTidalCache_def SetTidal_def Let_def IsZero_def Minute_def
      pruneExpiredLocked_def After_def Add_def zero_entry_def)

end
